theory Spec2Isabelle
  imports Main "HOL-Library.Word"
begin

section \<open>Kernel conventions\<close>

text \<open>
  The kernel functions return a C \<open>long\<close> or \<open>ssize_t\<close>: a non-negative value on
  success and a negated error code on failure.  Return values are modelled as \<open>int\<close>.
  A failed \<open>KASSERT\<close> (or a dereference of a null pointer) stops the kernel; a function
  that may do so returns a \<open>kres\<close>, with \<open>Panic\<close> for that outcome.
\<close>

datatype 'a kres = Panic | Ret 'a

type_synonym u16 = "16 word"
type_synonym u32 = "32 word"
type_synonym u64 = "64 word"

text \<open>
  Modelled from the spec: \<open>errno.h\<close> is not among the sources.  The specification calls
  the error codes a POSIX-compatible subset, so they carry the usual POSIX numbers.
\<close>

definition EPERM :: int where "EPERM = 1"
definition ENOENT :: int where "ENOENT = 2"
definition EBADF :: int where "EBADF = 9"
definition ENOMEM :: int where "ENOMEM = 12"
definition ENOTDIR :: int where "ENOTDIR = 20"
definition EISDIR :: int where "EISDIR = 21"
definition EINVAL :: int where "EINVAL = 22"
definition EFBIG :: int where "EFBIG = 27"
definition ENOSPC :: int where "ENOSPC = 28"
definition ENAMETOOLONG :: int where "ENAMETOOLONG = 36"
definition ENOTEMPTY :: int where "ENOTEMPTY = 39"

text \<open>
  Modelled from the spec: \<open>PAGE_SIZE\<close> and \<open>S5_BLOCK_SIZE\<close> are declared in headers that
  are not among the sources.  The specification (and the comment at the head of
  \<open>s5fs_subr.c\<close>) give pages and disk blocks 4096 bytes each.
\<close>

definition PAGE_SIZE :: nat where "PAGE_SIZE = 4096"
definition PAGE_SHIFT :: nat where "PAGE_SHIFT = 12"

section \<open>S5FS: the data on the block device\<close>

text \<open>
  \<open>s5_inode_t\<close>.  The field \<open>s5_un\<close> is the union of \<open>s5_size\<close> and \<open>s5_next_free\<close>:
  one 32-bit cell read under either name.  The array \<open>s5_direct_blocks\<close> has
  \<open>S5_NDIRECT_BLOCKS\<close> entries, which is the length of the list here.
\<close>

record s5_inode =
  s5_un :: u32
  s5_number :: u32
  s5_type :: u16
  s5_linkcount :: u16
  s5_direct_blocks :: "u32 list"
  s5_indirect_block :: u32

text \<open>
  \<open>s5_super_t\<close>.  The array \<open>s5s_free_blocks\<close> has \<open>S5_NBLKS_PER_FNODE\<close> entries; its
  last entry is the link to the next node of the free-block list.
\<close>

record s5_super =
  s5s_magic :: u32
  s5s_version :: u32
  s5s_free_inode :: u32
  s5s_nfree :: u32
  s5s_free_blocks :: "u32 list"
  s5s_root_inode :: u32
  s5s_num_inodes :: u32

definition S5_NBLKS_PER_FNODE :: "s5_super \<Rightarrow> nat" where
  "S5_NBLKS_PER_FNODE s = length (s5s_free_blocks s)"

text \<open>
  \<open>s5fs_t\<close> together with the part of the block device's memory object it works on.
  \<^item> \<open>bd_inodes\<close> is the inode array of the device, indexed by inode number
    (\<open>S5_INODE_BLOCK\<close> and \<open>S5_INODE_OFFSET\<close> locate an inode in it).
  \<^item> \<open>bd_blocks\<close> gives the contents of a data-region block as 32-bit words (a block
    holds \<open>S5_BLOCK_SIZE / 4\<close> of them), \<open>bd_dirty\<close> the dirty bit of its cached frame.
  The inode array is a map of its own: the block numbers handed to \<open>s5_free_block\<close>
  are numbers of data-region blocks, which hold no inode.
  \<open>s5_lock_super\<close> and \<open>s5_unlock_super\<close> bracket the accesses to the super block;
  in this sequential model they change nothing.  \<open>s5_get_disk_block\<close> asserts that
  the frame was obtained, so obtaining a frame always succeeds here.
\<close>

record s5fs =
  s5f_super :: s5_super
  bd_inodes :: "u32 \<Rightarrow> s5_inode"
  bd_blocks :: "u32 \<Rightarrow> u32 list"
  bd_dirty :: "u32 \<Rightarrow> bool"

text \<open>
  Modelled from the spec: the macro \<open>S5_INODE_BLOCK\<close> is not among the sources.  The
  specification puts the inode array in blocks 1 and following, 32 inodes to a block.
\<close>

definition S5_INODE_BLOCK :: "u32 \<Rightarrow> u32" where
  "S5_INODE_BLOCK ino = 1 + ino div 32"

text \<open>
  \<open>s5_get_disk_block\<close>: the frame of block \<open>blocknum\<close> of the device, marked dirty
  when it is requested for writing.  \<open>s5_release_disk_block\<close> only unlocks the frame.
\<close>

definition s5_get_disk_block :: "s5fs \<Rightarrow> u32 \<Rightarrow> bool \<Rightarrow> s5fs" where
  "s5_get_disk_block s5fs blocknum forwrite =
     s5fs\<lparr>bd_dirty := (bd_dirty s5fs)(blocknum := bd_dirty s5fs blocknum \<or> forwrite)\<rparr>"

text \<open>
  \<open>s5_get_inode\<close>: the frame of the inode's block, and the inode in it; the assertion
  \<open>(*inodep)->s5_number == ino\<close> is the \<open>Panic\<close> branch.
\<close>

definition s5_get_inode :: "s5fs \<Rightarrow> u32 \<Rightarrow> bool \<Rightarrow> s5fs kres" where
  "s5_get_inode s5fs ino forwrite =
     (let fs1 = s5_get_disk_block s5fs (S5_INODE_BLOCK ino) forwrite in
      if s5_number (bd_inodes fs1 ino) = ino then Ret fs1 else Panic)"

subsection \<open>\<open>s5_free_block\<close>\<close>

text \<open>
  The file \<open>s5fs_subr.c\<close> holds the source twice.  The functions are modelled from
  the first copy (lines 1 to 907), in which \<open>s5_free_block\<close> is written out; in the
  second copy the body of \<open>s5_free_block\<close> is commented out, the other functions
  modelled here are the same in both.

  \<open>memcpy(pf->pf_addr, s->s5s_free_blocks, sizeof(s->s5s_free_blocks))\<close> overwrites
  the first \<open>S5_NBLKS_PER_FNODE\<close> words of the frame of block \<open>blockno\<close> and leaves
  the rest of the frame as it was.
\<close>

definition s5_free_block :: "s5fs \<Rightarrow> u32 \<Rightarrow> s5fs kres" where
  "s5_free_block s5fs blockno =
     (let s = s5f_super s5fs; n = S5_NBLKS_PER_FNODE s in
      if blockno = 0 then Panic
      else if \<not> unat (s5s_nfree s) < n then Panic
      else
        let pf = s5_get_disk_block s5fs blockno True in
        if unat (s5s_nfree s) = n - 1 then
          Ret (pf\<lparr>
            bd_blocks := (bd_blocks pf)
              (blockno := s5s_free_blocks s @ drop n (bd_blocks pf blockno)),
            s5f_super := s\<lparr>s5s_nfree := 0,
                           s5s_free_blocks := (s5s_free_blocks s)[n - 1 := blockno]\<rparr>\<rparr>)
        else
          Ret (pf\<lparr>
            bd_dirty := (bd_dirty pf)(blockno := False),
            s5f_super := s\<lparr>s5s_free_blocks :=
                             (s5s_free_blocks s)[unat (s5s_nfree s) := blockno],
                           s5s_nfree := s5s_nfree s + 1\<rparr>\<rparr>))"

subsection \<open>\<open>s5_alloc_inode\<close> and \<open>s5_free_inode\<close>\<close>

text \<open>
  The constants \<open>S5_TYPE_FREE\<close>, \<open>S5_TYPE_DATA\<close>, \<open>S5_TYPE_DIR\<close>, \<open>S5_TYPE_CHR\<close> and
  \<open>S5_TYPE_BLK\<close> are declared in \<open>s5fs.h\<close>, which is not among the sources: the
  functions that use them take their values as a parameter.
\<close>

record s5_type_codes =
  S5_TYPE_FREE :: u16
  S5_TYPE_DATA :: u16
  S5_TYPE_DIR :: u16
  S5_TYPE_CHR :: u16
  S5_TYPE_BLK :: u16

text \<open>
  \<open>s5_alloc_inode\<close> returns a \<open>long\<close>: \<open>-ENOSPC\<close>, or the 32-bit inode number, which
  is never negative as a \<open>long\<close>.  The first assertion is on the \<open>type\<close> argument, the
  second one is inside \<open>s5_get_inode\<close>, the third one compares the link with the
  inode's own number.
\<close>

definition s5_alloc_inode :: "s5_type_codes \<Rightarrow> s5fs \<Rightarrow> u16 \<Rightarrow> u32 \<Rightarrow> (int \<times> s5fs) kres" where
  "s5_alloc_inode tc s5fs type devid =
     (if \<not> (S5_TYPE_DATA tc = type \<or> S5_TYPE_DIR tc = type \<or>
             S5_TYPE_CHR tc = type \<or> S5_TYPE_BLK tc = type) then Panic
      else
        let new_ino = s5s_free_inode (s5f_super s5fs) in
        if new_ino = - 1 then Ret (- ENOSPC, s5fs)
        else
          (case s5_get_inode s5fs new_ino True of
             Panic \<Rightarrow> Panic
           | Ret fs1 \<Rightarrow>
               let inode = bd_inodes fs1 new_ino in
               if s5_un inode = s5_number inode then Panic
               else
                 Ret (uint new_ino,
                      fs1\<lparr>s5f_super := (s5f_super fs1)\<lparr>s5s_free_inode := s5_un inode\<rparr>,
                          bd_inodes := (bd_inodes fs1)
                            (new_ino := inode\<lparr>
                               s5_un := 0,
                               s5_type := type,
                               s5_linkcount := 0,
                               s5_direct_blocks :=
                                 replicate (length (s5_direct_blocks inode)) 0,
                               s5_indirect_block :=
                                 (if S5_TYPE_CHR tc = type \<or> S5_TYPE_BLK tc = type
                                  then devid else 0)\<rparr>)\<rparr>)))"

text \<open>
  The two loops of \<open>s5_free_inode\<close> that free every non-zero entry of an array which
  was copied to the stack beforehand.
\<close>

fun s5_free_each :: "s5fs \<Rightarrow> u32 list \<Rightarrow> s5fs kres" where
  "s5_free_each s5fs [] = Ret s5fs"
| "s5_free_each s5fs (b # bs) =
     (if b \<noteq> 0 then
        (case s5_free_block s5fs b of
           Panic \<Rightarrow> Panic
         | Ret fs1 \<Rightarrow> s5_free_each fs1 bs)
      else s5_free_each s5fs bs)"

text \<open>
  Modelled from the spec: \<open>S5_NIDIRECT_BLOCKS\<close> is not among the sources; it is the
  number of 32-bit block numbers in one block, \<open>S5_BLOCK_SIZE / sizeof(uint32_t)\<close>.
\<close>

definition S5_NIDIRECT_BLOCKS :: nat where
  "S5_NIDIRECT_BLOCKS = PAGE_SIZE div 4"

definition s5_free_inode :: "s5_type_codes \<Rightarrow> s5fs \<Rightarrow> u32 \<Rightarrow> s5fs kres" where
  "s5_free_inode tc s5fs ino =
     (case s5_get_inode s5fs ino True of
        Panic \<Rightarrow> Panic
      | Ret fs1 \<Rightarrow>
          let inode = bd_inodes fs1 ino;
              is_file = (s5_type inode = S5_TYPE_DATA tc \<or> s5_type inode = S5_TYPE_DIR tc)
          in
          if \<not> is_file \<and>
             \<not> (s5_type inode = S5_TYPE_BLK tc \<or> s5_type inode = S5_TYPE_CHR tc)
          then Panic
          else
            let indirect_block_to_free =
                  (if is_file then s5_indirect_block inode else 0);
                direct_blocks_to_free =
                  (if is_file then s5_direct_blocks inode
                   else replicate (length (s5_direct_blocks inode)) 0);
                fs2 = fs1\<lparr>
                  bd_inodes := (bd_inodes fs1)
                    (ino := inode\<lparr>s5_un := s5s_free_inode (s5f_super fs1),
                                  s5_type := S5_TYPE_FREE tc\<rparr>),
                  s5f_super := (s5f_super fs1)\<lparr>s5s_free_inode := s5_number inode\<rparr>\<rparr>
            in
            (case s5_free_each fs2 direct_blocks_to_free of
               Panic \<Rightarrow> Panic
             | Ret fs3 \<Rightarrow>
                 if indirect_block_to_free \<noteq> 0 then
                   let pf = s5_get_disk_block fs3 indirect_block_to_free False;
                       indirect_blocks_to_free =
                         take S5_NIDIRECT_BLOCKS (bd_blocks pf indirect_block_to_free)
                   in
                   (case s5_free_each pf indirect_blocks_to_free of
                      Panic \<Rightarrow> Panic
                    | Ret fs4 \<Rightarrow> s5_free_block fs4 indirect_block_to_free)
                 else Ret fs3))"

subsection \<open>\<open>s5fs_mkdir\<close>\<close>

text \<open>
  The mode constants of \<open>stat.h\<close>, which is not among the sources; the values are
  the ones quoted in the comment inside \<open>s5fs_read_vnode\<close>.  A mode is a C \<open>int\<close>.
\<close>

definition S_IFCHR :: u32 where "S_IFCHR = 0x0100"
definition S_IFDIR :: u32 where "S_IFDIR = 0x0200"
definition S_IFBLK :: u32 where "S_IFBLK = 0x0400"
definition S_IFREG :: u32 where "S_IFREG = 0x0800"

definition S_ISDIR :: "u32 \<Rightarrow> bool" where
  "S_ISDIR m = (and m 0xFF00 = S_IFDIR)"

text \<open>
  \<open>s5fs_mkdir\<close> up to its first return: the assertion on the parent, the call
  \<open>s5_alloc_inode(VNODE_TO_S5FS(dir), S_IFDIR, 0)\<close>, whose second parameter is a
  \<open>uint16_t\<close>, and the return of a negative result.  What the function does after a
  successful allocation (\<open>vget_locked\<close>, the three calls of \<open>s5_link\<close> and their
  undo paths) is the continuation \<open>rest\<close>, a parameter that receives the file system
  and the new inode number.
\<close>

definition s5fs_mkdir ::
  "s5_type_codes \<Rightarrow> (s5fs \<Rightarrow> int \<Rightarrow> (int \<times> s5fs) kres) \<Rightarrow> s5fs \<Rightarrow> u32 \<Rightarrow> (int \<times> s5fs) kres" where
  "s5fs_mkdir tc rest s5fs dir_mode =
     (if \<not> S_ISDIR dir_mode then Panic
      else
        (case s5_alloc_inode tc s5fs (ucast S_IFDIR) 0 of
           Panic \<Rightarrow> Panic
         | Ret (alloc_inode, fs1) \<Rightarrow>
             if alloc_inode < 0 then Ret (alloc_inode, fs1)
             else rest fs1 alloc_inode))"

section \<open>S5FS: files\<close>

text \<open>
  \<open>s5_node_t\<close>: the vnode (its length and mode, and the page numbers of the frames
  cached in the vnode's own memory object, \<open>vn_mobj\<close>), the copy of the inode and the
  flag \<open>dirtied_inode\<close>.
\<close>

record s5_node =
  vn_len :: u64
  vn_mode :: u32
  vn_mobj :: "u64 set"
  inode :: s5_inode
  dirtied_inode :: bool

text \<open>
  \<open>s5_file_block_to_disk_block\<close>: every statement of the body is commented out except
  \<open>return 0;\<close>.
\<close>

definition s5_file_block_to_disk_block :: "s5_node \<Rightarrow> u64 \<Rightarrow> bool \<Rightarrow> int" where
  "s5_file_block_to_disk_block sn file_blocknum alloc = 0"

text \<open>
  \<open>s5_read_file\<close>, \<open>s5_write_file\<close> and \<open>s5_find_dirent\<close>: the bodies are commented out;
  what is left is \<open>NOT_YET_IMPLEMENTED(...)\<close>, which reports the name of the unfinished
  function on the debug output, and \<open>return -1;\<close>.  Nothing is copied and the node is
  not touched.  \<open>s5_read_file\<close> gives the return value and the bytes stored in \<open>buf\<close>,
  \<open>s5_write_file\<close> the return value and the node afterwards.
\<close>

definition s5_read_file :: "s5_node \<Rightarrow> u64 \<Rightarrow> u64 \<Rightarrow> int \<times> 8 word list" where
  "s5_read_file sn pos len = (- 1, [])"

definition s5_write_file :: "s5_node \<Rightarrow> u64 \<Rightarrow> 8 word list \<Rightarrow> u64 \<Rightarrow> int \<times> s5_node" where
  "s5_write_file sn pos buf len = (- 1, sn)"

definition s5_find_dirent :: "s5_node \<Rightarrow> string \<Rightarrow> nat \<Rightarrow> int" where
  "s5_find_dirent sn name namelen = - 1"

subsection \<open>\<open>s5fs_get_pframe\<close>\<close>

text \<open>
  A page frame is named by the memory object that owns it and its index there.
\<close>

datatype pframe = Bdev_pframe u32 | Vnode_pframe u64

text \<open>
  Modelled from the spec: \<open>mobj_default_get_pframe\<close> is not among the sources.  By the
  specification of \<open>mobj_get_pframe\<close> it returns the resident frame of the object at the
  index, or allocates one and fills it (for a vnode through \<open>s5fs_fill_pframe\<close>, with
  zeroes), and fails with \<open>ENOMEM\<close> when no frame can be allocated; \<open>mem\<close> says
  whether a frame can be allocated.
\<close>

definition mobj_default_get_pframe ::
  "bool \<Rightarrow> s5_node \<Rightarrow> u64 \<Rightarrow> int \<times> pframe option \<times> s5_node" where
  "mobj_default_get_pframe mem sn pagenum =
     (if pagenum \<in> vn_mobj sn then (0, Some (Vnode_pframe pagenum), sn)
      else if mem then
        (0, Some (Vnode_pframe pagenum), sn\<lparr>vn_mobj := insert pagenum (vn_mobj sn)\<rparr>)
      else (- ENOMEM, None, sn))"

text \<open>
  \<open>s5fs_get_pframe\<close>.  The comparison \<open>vnode->vn_len <= pagenum * PAGE_SIZE\<close> is one of
  64-bit unsigned values.  In the branch of a disk block, \<open>mobj_find_pframe\<close> and
  \<open>mobj_free_pframe\<close> remove the frame cached in the vnode's own object, and the
  frame handed out is the one of the block device at the disk block (the state of the
  device is not threaded through this function).  The result is the return value,
  the frame stored through \<open>pfp\<close> and the node afterwards.
\<close>

definition s5fs_get_pframe ::
  "bool \<Rightarrow> s5_node \<Rightarrow> u64 \<Rightarrow> bool \<Rightarrow> (int \<times> pframe option \<times> s5_node) kres" where
  "s5fs_get_pframe mem vnode pagenum forwrite =
     (if vn_len vnode \<le> pagenum * word_of_nat PAGE_SIZE then Ret (- EINVAL, None, vnode)
      else
        let loc = s5_file_block_to_disk_block vnode pagenum forwrite in
        if loc < 0 then Ret (loc, None, vnode)
        else if loc \<noteq> 0 then
          Ret (0, Some (Bdev_pframe (word_of_int loc)),
               vnode\<lparr>vn_mobj := vn_mobj vnode - {pagenum}\<rparr>)
        else if forwrite then Panic
        else Ret (mobj_default_get_pframe mem vnode pagenum))"

subsection \<open>\<open>s5fs_rmdir\<close>\<close>

text \<open>
  Modelled from the spec: \<open>name_match\<close> is not among the sources; it compares the
  \<open>namelen\<close> characters at \<open>name\<close> with the string \<open>fname\<close>.
\<close>

definition name_match :: "string \<Rightarrow> string \<Rightarrow> nat \<Rightarrow> bool" where
  "name_match fname name namelen = (length fname = namelen \<and> take namelen name = fname)"

text \<open>
  \<open>s5fs_rmdir\<close>.  The local \<open>dirent\<close> is initialised to \<open>NULL\<close> and never assigned, so
  the statement after the test of \<open>err\<close>, which reads \<open>dirent->s5d_inode\<close>, is a null
  dereference: the \<open>Panic\<close> branch.  The statements after it (the tests for
  \<open>ENOTDIR\<close> and \<open>ENOTEMPTY\<close> and the three calls of \<open>s5_remove_dirent\<close>) cannot be
  reached.
\<close>

definition s5fs_rmdir :: "s5_node \<Rightarrow> string \<Rightarrow> nat \<Rightarrow> int kres" where
  "s5fs_rmdir parent name namelen =
     (if namelen = 1 \<and> name_match ''.'' name namelen then Ret (- ENOTDIR)
      else if namelen = 2 \<and> name_match ''..'' name namelen then Ret (- ENOTDIR)
      else
        let err = s5_find_dirent parent name namelen in
        if err < 0 then Ret err
        else Panic)"

section \<open>VFS\<close>

text \<open>
  The constants \<open>FMODE_READ\<close>, \<open>O_CREAT\<close> and \<open>NAME_LEN\<close> are declared in headers that
  are not among the sources: the functions that use them take their values as a
  parameter.
\<close>

record vfs_consts =
  FMODE_READ :: u32
  O_CREAT :: u32
  NAME_LEN :: nat

subsection \<open>\<open>do_read\<close>\<close>

text \<open>
  \<open>file_t\<close>: the open mode, the position and the vnode, which is named by a number.
  The table \<open>p_files\<close> of the current process maps a descriptor to its file.
\<close>

record file_t =
  f_mode :: u32
  f_pos :: u64
  f_vnode :: nat

text \<open>
  Modelled from the spec: \<open>fget\<close> and \<open>fput\<close> are not among the sources.  \<open>fget(fd)\<close>
  gives the file of an open descriptor with a reference added, or \<open>NULL\<close>; \<open>fput\<close>
  gives the reference back.  \<open>do_read\<close> pairs them on every path, so the reference
  count is as before and is left out.
\<close>

definition fget :: "(nat \<Rightarrow> file_t option) \<Rightarrow> int \<Rightarrow> file_t option" where
  "fget p_files fd = (if fd < 0 then None else p_files (nat fd))"

text \<open>
  \<open>do_read\<close>.  The vnode operation \<open>read\<close> is the parameter \<open>vn_read\<close>: from the vnode,
  the position and the length to the value it returns, which \<open>do_read\<close> keeps in an
  \<open>int\<close>.  \<open>vn_mode_of\<close> gives the mode of a vnode.  The result is the return value
  and the table afterwards.
\<close>

definition do_read ::
  "vfs_consts \<Rightarrow> (nat \<Rightarrow> u32) \<Rightarrow> (nat \<Rightarrow> u64 \<Rightarrow> u64 \<Rightarrow> int) \<Rightarrow>
   (nat \<Rightarrow> file_t option) \<Rightarrow> int \<Rightarrow> u64 \<Rightarrow> int \<times> (nat \<Rightarrow> file_t option)" where
  "do_read kc vn_mode_of vn_read p_files fd len =
     (case fget p_files fd of
        None \<Rightarrow> (- EBADF, p_files)
      | Some file \<Rightarrow>
          if and (f_mode file) (FMODE_READ kc) \<noteq> 0 then
            if S_ISDIR (vn_mode_of (f_vnode file)) then (- EISDIR, p_files)
            else
              let ret = vn_read (f_vnode file) (f_pos file) len in
              if ret \<noteq> 0 then (ret, p_files)
              else (ret, p_files(nat fd \<mapsto> file\<lparr>f_pos := f_pos file + word_of_int ret\<rparr>))
          else (- EBADF, p_files))"

subsection \<open>Path resolution\<close>

text \<open>
  A vnode is named by a number.  \<open>vfs\<close> holds what path resolution asks of the vnodes:
  the root \<open>vfs_root_fs.fs_root\<close>, whether \<open>vn_ops\<close> is set, the mode, and the vnode
  operations \<open>lookup\<close> and \<open>mknod\<close>.  An operation gives \<open>Inr v\<close> when it returns 0 and
  stores the vnode \<open>v\<close>, and \<open>Inl r\<close> when it returns the non-zero value \<open>r\<close>.
  Locks and reference counts have no part in the values returned and are left out.
\<close>

record vfs =
  fs_root :: nat
  vno_has_ops :: "nat \<Rightarrow> bool"
  vno_mode :: "nat \<Rightarrow> u32"
  vno_lookup :: "nat \<Rightarrow> string \<Rightarrow> int + nat"
  vno_mknod :: "nat \<Rightarrow> string \<Rightarrow> u32 \<Rightarrow> u32 \<Rightarrow> int + nat"

text \<open>
  A name is passed in C as a pointer and a length; here it is the string of that
  length, and \<open>namelen\<close> is its length.
\<close>

definition namev_lookup :: "vfs \<Rightarrow> nat \<Rightarrow> string \<Rightarrow> int + nat" where
  "namev_lookup V dir name =
     (if \<not> vno_has_ops V dir \<or> \<not> S_ISDIR (vno_mode V dir) then Inl (- ENOTDIR)
      else if length name = 0 then Inr dir
      else vno_lookup V dir name)"

text \<open>
  \<open>namev_tokenize\<close>.  \<open>search\<close> is \<open>None\<close> for the null pointer and otherwise the rest
  of the path.  The result is the token (the \<open>*len\<close> characters at the pointer
  returned) and the new value of \<open>*search\<close>.
\<close>

definition namev_tokenize :: "string option \<Rightarrow> string \<times> string option" where
  "namev_tokenize search =
     (case search of
        None \<Rightarrow> ([], None)
      | Some s \<Rightarrow>
          let s1 = dropWhile (\<lambda>c. c = CHR ''/'') s;
              rest = dropWhile (\<lambda>c. c \<noteq> CHR ''/'') s1
          in (takeWhile (\<lambda>c. c \<noteq> CHR ''/'') s1, if rest = [] then None else Some rest))"

text \<open>
  The loop of \<open>namev_dir\<close>: \<open>curname\<close> is looked up in \<open>basenode\<close> while a further
  token follows it.  When the vnode found is \<open>basenode\<close> itself the loop stays there.
\<close>

function namev_dir_loop ::
  "vfs \<Rightarrow> nat \<Rightarrow> string \<Rightarrow> string \<Rightarrow> string option \<Rightarrow> int + nat \<times> string" where
  "namev_dir_loop V basenode curname nextname search =
     (if length nextname \<noteq> 0 then
        (case namev_lookup V basenode curname of
           Inl err \<Rightarrow> Inl err
         | Inr revnode \<Rightarrow>
             namev_dir_loop V (if basenode = revnode then basenode else revnode)
               nextname (fst (namev_tokenize search)) (snd (namev_tokenize search)))
      else Inr (basenode, curname))"
  by pat_completeness auto
termination
proof (relation "measure (\<lambda>(V, basenode, curname, nextname, search).
          (if nextname = [] then 0 else 1) +
          (case search of None \<Rightarrow> 0 | Some s \<Rightarrow> 2 + 2 * length s))")
  show "wf (measure (\<lambda>(V, basenode, curname, nextname, search).
          (if nextname = [] then 0 else 1) +
          (case search of None \<Rightarrow> 0 | Some s \<Rightarrow> 2 + 2 * length s)))"
    by (rule wf_measure)
next
  fix V :: vfs and basenode :: nat and curname nextname :: string
    and search :: "string option" and revnode :: nat
  assume ne: "length nextname \<noteq> 0"
  have dec: "(if fst (namev_tokenize search) = [] then 0 else 1 :: nat) +
          (case snd (namev_tokenize search) of None \<Rightarrow> 0 | Some s \<Rightarrow> 2 + 2 * length s)
        < (if nextname = [] then 0 else 1 :: nat) +
          (case search of None \<Rightarrow> 0 | Some s \<Rightarrow> 2 + 2 * length s)"
  proof (cases search)
    case None
    with ne show ?thesis by (simp add: namev_tokenize_def)
  next
    case (Some s)
    define rest where
      "rest = dropWhile (\<lambda>c. c \<noteq> CHR ''/'') (dropWhile (\<lambda>c. c = CHR ''/'') s)"
    have snd_eq: "snd (namev_tokenize search) = (if rest = [] then None else Some rest)"
      unfolding rest_def using Some by (simp add: namev_tokenize_def Let_def)
    have lhs: "(if nextname = [] then 0 else 1 :: nat) +
          (case search of None \<Rightarrow> 0 | Some s \<Rightarrow> 2 + 2 * length s) = 3 + 2 * length s"
      using ne Some by simp
    show ?thesis
    proof (cases "rest = []")
      case True
      then have "snd (namev_tokenize search) = None" using snd_eq by simp
      then show ?thesis unfolding lhs by simp
    next
      case False
      have "length rest < length s"
      proof (cases s)
        case Nil
        with False show ?thesis by (simp add: rest_def)
      next
        case (Cons c cs)
        have a: "length (dropWhile (\<lambda>c. c \<noteq> CHR ''/'')
                   (dropWhile (\<lambda>c. c = CHR ''/'') cs)) \<le> length cs"
          by (meson length_dropWhile_le le_trans)
        have b: "length (dropWhile (\<lambda>c. c \<noteq> CHR ''/'') cs) \<le> length cs"
          by (rule length_dropWhile_le)
        from Cons a b show ?thesis unfolding rest_def by (cases "c = CHR ''/''") auto
      qed
      moreover from False have "snd (namev_tokenize search) = Some rest"
        using snd_eq by simp
      ultimately show ?thesis unfolding lhs by simp
    qed
  qed
  show "((V, if basenode = revnode then basenode else revnode, nextname,
          fst (namev_tokenize search), snd (namev_tokenize search)),
         (V, basenode, curname, nextname, search))
        \<in> measure (\<lambda>(V, basenode, curname, nextname, search).
          (if nextname = [] then 0 else 1) +
          (case search of None \<Rightarrow> 0 | Some s \<Rightarrow> 2 + 2 * length s))"
    using dec by (simp only: in_measure prod.case)
qed

text \<open>
  \<open>namev_dir\<close> gives \<open>Inl r\<close> for the return value \<open>r\<close> of a failure and
  \<open>Inr (res_vnode, name)\<close> when it returns 0.  The path is not the null pointer.
\<close>

definition namev_dir :: "vfs \<Rightarrow> nat \<Rightarrow> string \<Rightarrow> int + nat \<times> string" where
  "namev_dir V base path =
     (if path = [] then Inl (- EINVAL)
      else
        let basenode = (if hd path = CHR ''/'' then fs_root V else base);
            tok1 = namev_tokenize (Some path);
            tok2 = namev_tokenize (snd tok1)
        in namev_dir_loop V basenode (fst tok1) (fst tok2) (snd tok2))"

text \<open>
  \<open>path[strlen(path) - 1] == '/'\<close>.  For the empty path the C expression reads the
  byte in front of the string; the model takes that byte not to be a slash.
\<close>

definition ends_in_slash :: "string \<Rightarrow> bool" where
  "ends_in_slash path = (path \<noteq> [] \<and> last path = CHR ''/'')"

definition namev_open ::
  "vfs_consts \<Rightarrow> vfs \<Rightarrow> nat \<Rightarrow> string \<Rightarrow> u32 \<Rightarrow> u32 \<Rightarrow> u32 \<Rightarrow> int + nat" where
  "namev_open kc V base path oflags mode devid =
     (if and oflags (O_CREAT kc) \<noteq> 0 \<and> ends_in_slash path then Inl (- EINVAL)
      else
        (case namev_dir V base path of
           Inl res \<Rightarrow> Inl res
         | Inr (dirnode, nv_name) \<Rightarrow>
             if length nv_name > NAME_LEN kc then Inl (- ENAMETOOLONG)
             else
               let looked = namev_lookup V dirnode nv_name;
                   found =
                     (case looked of
                        Inl res \<Rightarrow>
                          if res = - ENOENT \<and> and oflags (O_CREAT kc) \<noteq> 0
                          then vno_mknod V dirnode nv_name mode devid
                          else Inl res
                      | Inr filenode \<Rightarrow> Inr filenode)
               in
               (case found of
                  Inl res \<Rightarrow> Inl res
                | Inr filenode \<Rightarrow>
                    if \<not> S_ISDIR (vno_mode V filenode) \<and> ends_in_slash path
                    then Inl (- ENOTDIR)
                    else Inr filenode)))"

text \<open>
  The last component of a path, in the words of the specification: what stands
  between the last slash that is followed by another character and the slashes that
  end the path.  \<open>rest_of\<close> reads a \<open>search\<close> pointer as the text still to be parsed.
\<close>

definition path_basename :: "string \<Rightarrow> string" where
  "path_basename path =
     rev (takeWhile (\<lambda>c. c \<noteq> CHR ''/'') (dropWhile (\<lambda>c. c = CHR ''/'') (rev path)))"

definition rest_of :: "string option \<Rightarrow> string" where
  "rest_of search = (case search of None \<Rightarrow> [] | Some s \<Rightarrow> s)"

section \<open>Address spaces\<close>

text \<open>
  \<open>vmarea_t\<close>: the page range \<open>[vma_start, vma_end)\<close>; the other fields play no part
  in \<open>vmmap_find_range\<close>.  The list \<open>vmm_list\<close> of a \<open>vmmap_t\<close> is the list of its areas
  from its head to its tail.
\<close>

record vmarea =
  vma_start :: u64
  vma_end :: u64

text \<open>
  The constants \<open>USER_MEM_LOW\<close> and \<open>USER_MEM_HIGH\<close> are declared in a header that is
  not among the sources: \<open>vmmap_find_range\<close> takes their values as a parameter.
\<close>

record mm_consts =
  USER_MEM_LOW :: u64
  USER_MEM_HIGH :: u64

text \<open>
  Modelled from the spec: the macro \<open>ADDR_TO_PN\<close> is not among the sources; it gives
  the number of the page that holds an address.
\<close>

definition ADDR_TO_PN :: "u64 \<Rightarrow> u64" where
  "ADDR_TO_PN x = drop_bit PAGE_SHIFT x"

text \<open>
  The direction argument is an \<open>int\<close> compared with \<open>VMMAP_DIR_HILO\<close> and with
  \<open>VMMAP_DIR_LOHI\<close>; \<open>VMMAP_DIR_OTHER\<close> stands for every other value.
\<close>

datatype vmmap_dir = VMMAP_DIR_LOHI | VMMAP_DIR_HILO | VMMAP_DIR_OTHER

text \<open>
  The body of \<open>list_iterate_reverse\<close> in the \<open>VMMAP_DIR_HILO\<close> branch, on the areas
  from the tail of the list to its head, and the body of \<open>list_iterate\<close> in the
  \<open>VMMAP_DIR_LOHI\<close> branch.  The arithmetic is that of \<open>size_t\<close>.
\<close>

fun find_range_hilo :: "vmarea list \<Rightarrow> u64 \<Rightarrow> u64" where
  "find_range_hilo [] vfn = vfn"
| "find_range_hilo (vma # vmas) vfn =
     (if vma_start vma > vfn then vfn
      else find_range_hilo vmas (vma_end vma + 1))"

fun find_range_lohi :: "vmarea list \<Rightarrow> u64 \<Rightarrow> u64 \<Rightarrow> u64" where
  "find_range_lohi [] npages vfn = vfn"
| "find_range_lohi (vma # vmas) npages vfn =
     (if vma_start vma - vfn \<ge> npages then vfn
      else find_range_lohi vmas npages (vma_end vma))"

text \<open>\<open>vmmap_find_range\<close> returns an \<open>ssize_t\<close>: the page number read as signed, or -1.\<close>

definition vmmap_find_range :: "mm_consts \<Rightarrow> vmarea list \<Rightarrow> u64 \<Rightarrow> vmmap_dir \<Rightarrow> int" where
  "vmmap_find_range mc vmm_list npages dir =
     (if npages > (USER_MEM_HIGH mc - USER_MEM_LOW mc) div word_of_nat PAGE_SIZE then - 1
      else
        (case dir of
           VMMAP_DIR_HILO \<Rightarrow>
             sint (find_range_hilo (rev vmm_list) (ADDR_TO_PN (USER_MEM_HIGH mc) - npages))
         | VMMAP_DIR_LOHI \<Rightarrow>
             sint (find_range_lohi vmm_list npages (ADDR_TO_PN (USER_MEM_LOW mc)))
         | VMMAP_DIR_OTHER \<Rightarrow> - 1))"

text \<open>
  What the claim asks of the result, in the words of the specification: the \<open>n\<close>
  pages from \<open>lo\<close> on lie between the bottom and the top of user memory and no area
  of the map holds one of them.
\<close>

definition range_is_free :: "vmarea list \<Rightarrow> int \<Rightarrow> int \<Rightarrow> bool" where
  "range_is_free vmm_list lo n =
     list_all (\<lambda>vma. uint (vma_end vma) \<le> lo \<or> lo + n \<le> uint (vma_start vma)) vmm_list"

definition range_in_user_memory :: "mm_consts \<Rightarrow> int \<Rightarrow> int \<Rightarrow> bool" where
  "range_in_user_memory mc lo n =
     (uint (ADDR_TO_PN (USER_MEM_LOW mc)) \<le> lo \<and> lo + n \<le> uint (ADDR_TO_PN (USER_MEM_HIGH mc)))"

section \<open>Example states\<close>

text \<open>
  Concrete values at which the theorems below are instantiated: type tags 0, 1, 2, 4
  and 8, \<open>FMODE_READ = 1\<close>, \<open>O_CREAT = 0x100\<close>, a name limit of 28 characters, and
  user memory from \<open>0x400000\<close> to \<open>0xC0000000\<close>.
\<close>

definition s5_codes_ex :: s5_type_codes where
  "s5_codes_ex =
     \<lparr>S5_TYPE_FREE = 0, S5_TYPE_DATA = 1, S5_TYPE_DIR = 2, S5_TYPE_CHR = 4, S5_TYPE_BLK = 8\<rparr>"

text \<open>
  An inode array in which inode 3 is a character device with device id 513, and the
  other inodes are free: inode 5 is linked to inode 6, every other one ends the list.
\<close>

definition inode_ex :: "u32 \<Rightarrow> s5_inode" where
  "inode_ex ino =
     (if ino = 3 then
        \<lparr>s5_un = 0, s5_number = 3, s5_type = 4, s5_linkcount = 1,
         s5_direct_blocks = [21, 22], s5_indirect_block = 513\<rparr>
      else
        \<lparr>s5_un = (if ino = 5 then 6 else - 1), s5_number = ino, s5_type = 0,
         s5_linkcount = 0, s5_direct_blocks = [0, 0], s5_indirect_block = 0\<rparr>)"

text \<open>
  A file system with three slots in the free-block array of the super block, with the
  given head of the free-inode list and the given count of free blocks.
\<close>

definition s5fs_ex :: "u32 \<Rightarrow> u32 \<Rightarrow> s5fs" where
  "s5fs_ex free_inode nfree =
     \<lparr>s5f_super = \<lparr>s5s_magic = 0, s5s_version = 0, s5s_free_inode = free_inode,
        s5s_nfree = nfree, s5s_free_blocks = [40, 0, 50], s5s_root_inode = 0,
        s5s_num_inodes = 8\<rparr>,
      bd_inodes = inode_ex,
      bd_blocks = (\<lambda>_. [0, 0, 0, 0]),
      bd_dirty = (\<lambda>_. False)\<rparr>"

text \<open>A file of one page, nothing of it cached in the vnode's own object.\<close>

definition s5_node_ex :: s5_node where
  "s5_node_ex =
     \<lparr>vn_len = 4096, vn_mode = S_IFREG, vn_mobj = {},
      inode = \<lparr>s5_un = 4096, s5_number = 4, s5_type = 1, s5_linkcount = 1,
               s5_direct_blocks = [0, 0], s5_indirect_block = 0\<rparr>,
      dirtied_inode = False\<rparr>"

definition kc_ex :: vfs_consts where
  "kc_ex = \<lparr>FMODE_READ = 1, O_CREAT = 0x100, NAME_LEN = 28\<rparr>"

text \<open>Descriptor 3 is open for reading on the regular file 7, at position 0.\<close>

definition p_files_ex :: "nat \<Rightarrow> file_t option" where
  "p_files_ex = Map.empty(3 \<mapsto> \<lparr>f_mode = 1, f_pos = 0, f_vnode = 7\<rparr>)"

text \<open>
  Directories without entries: every vnode is a directory whose \<open>lookup\<close> finds nothing.
\<close>

definition vfs_ex :: vfs where
  "vfs_ex =
     \<lparr>fs_root = 0, vno_has_ops = (\<lambda>_. True), vno_mode = (\<lambda>_. S_IFDIR),
      vno_lookup = (\<lambda>dir name. Inl (- ENOENT)),
      vno_mknod = (\<lambda>dir name mode devid. Inl (- ENOSPC))\<rparr>"

text \<open>A name of 29 characters.\<close>

definition long_name_ex :: string where
  "long_name_ex = ''aaaaaaaaaaaaaaaaaaaaaaaaaaaaa''"

text \<open>User memory from address \<open>0x400000\<close> up to \<open>0xC0000000\<close>: pages \<open>0x400\<close> to \<open>0xC0000\<close>.\<close>

definition mc_ex :: mm_consts where
  "mc_ex = \<lparr>USER_MEM_LOW = 0x400000, USER_MEM_HIGH = 0xC0000000\<rparr>"

section \<open>Properties\<close>

subsection \<open>The free-block list\<close>



subsection \<open>The free-inode list\<close>

lemma s5_free_each_zeros: "s5_free_each fs (replicate n 0) = Ret fs"
  by (induction n) simp_all

text \<open>
  Freeing the inode of a device: the state in which \<open>s5_free_inode\<close> returns.  Only
  the frame of the inode's block (now dirty), the inode and the head of the
  free-inode list differ from the state before.
\<close>

lemma free_device_inode_state:
  assumes num: "s5_number (bd_inodes fs ino) = ino"
    and dev: "s5_type (bd_inodes fs ino) = S5_TYPE_CHR tc \<or>
              s5_type (bd_inodes fs ino) = S5_TYPE_BLK tc"
    and codes: "distinct [S5_TYPE_FREE tc, S5_TYPE_DATA tc, S5_TYPE_DIR tc,
                          S5_TYPE_CHR tc, S5_TYPE_BLK tc]"
  shows "s5_free_inode tc fs ino =
      Ret (fs\<lparr>bd_dirty := (bd_dirty fs)(S5_INODE_BLOCK ino := True),
               bd_inodes := (bd_inodes fs)
                 (ino := (bd_inodes fs ino)\<lparr>s5_un := s5s_free_inode (s5f_super fs),
                                            s5_type := S5_TYPE_FREE tc\<rparr>),
               s5f_super := (s5f_super fs)\<lparr>s5s_free_inode := ino\<rparr>\<rparr>)"
proof -
  from dev codes have nofile: "s5_type (bd_inodes fs ino) \<noteq> S5_TYPE_DATA tc"
    "s5_type (bd_inodes fs ino) \<noteq> S5_TYPE_DIR tc"
    by auto
  show ?thesis
    using num dev nofile
    by (auto simp add: s5_free_inode_def s5_get_inode_def s5_get_disk_block_def Let_def
        s5_free_each_zeros)
qed

text \<open>
  C10.  For an inode whose type is the character-device or the block-device tag
  (the five type tags being different values, and the inode carrying its own
  number, as \<open>s5_get_inode\<close> asserts), \<open>s5_free_inode\<close> returns with the inode
  pushed on the free-inode list: the head is the inode, the inode's link is the old
  head and its type is the free tag.  No block is freed: the free-block array and
  the count of the super block and the contents of the device's blocks are as
  before, whatever the device id in \<open>s5_indirect_block\<close> and whatever the
  direct-block slots hold; both fields are left as they were.
\<close>

theorem s5_free_inode_device:
  assumes num: "s5_number (bd_inodes fs ino) = ino"
    and dev: "s5_type (bd_inodes fs ino) = S5_TYPE_CHR tc \<or>
              s5_type (bd_inodes fs ino) = S5_TYPE_BLK tc"
    and codes: "distinct [S5_TYPE_FREE tc, S5_TYPE_DATA tc, S5_TYPE_DIR tc,
                          S5_TYPE_CHR tc, S5_TYPE_BLK tc]"
  shows "\<exists>fs'. s5_free_inode tc fs ino = Ret fs' \<and>
      s5s_free_inode (s5f_super fs') = ino \<and>
      s5_un (bd_inodes fs' ino) = s5s_free_inode (s5f_super fs) \<and>
      s5_type (bd_inodes fs' ino) = S5_TYPE_FREE tc \<and>
      s5s_free_blocks (s5f_super fs') = s5s_free_blocks (s5f_super fs) \<and>
      s5s_nfree (s5f_super fs') = s5s_nfree (s5f_super fs) \<and>
      bd_blocks fs' = bd_blocks fs \<and>
      s5_indirect_block (bd_inodes fs' ino) = s5_indirect_block (bd_inodes fs ino) \<and>
      s5_direct_blocks (bd_inodes fs' ino) = s5_direct_blocks (bd_inodes fs ino)"
  by (simp add: free_device_inode_state [OF num dev codes])

text \<open>
  Inode 3 of the example is a character device with device id 513 and the numbers
  21 and 22 in its direct slots; the free-inode list starts at inode 5 and one free
  block is recorded.  After \<open>s5_free_inode\<close> the list starts at inode 3, which links
  to inode 5, and the free-block array \<open>[40, 0, 50]\<close> with its count 1 is untouched.
\<close>

theorem s5_free_inode_device_witness:
  "s5_number (bd_inodes (s5fs_ex 5 1) 3) = 3 \<and>
   s5_type (bd_inodes (s5fs_ex 5 1) 3) = S5_TYPE_CHR s5_codes_ex \<and>
   s5_indirect_block (bd_inodes (s5fs_ex 5 1) 3) = 513 \<and>
   distinct [S5_TYPE_FREE s5_codes_ex, S5_TYPE_DATA s5_codes_ex, S5_TYPE_DIR s5_codes_ex,
             S5_TYPE_CHR s5_codes_ex, S5_TYPE_BLK s5_codes_ex] \<and>
   (\<exists>fs'. s5_free_inode s5_codes_ex (s5fs_ex 5 1) 3 = Ret fs' \<and>
      s5s_free_inode (s5f_super fs') = 3 \<and>
      s5_un (bd_inodes fs' 3) = 5 \<and>
      s5_type (bd_inodes fs' 3) = 0 \<and>
      s5s_free_blocks (s5f_super fs') = [40, 0, 50] \<and>
      s5s_nfree (s5f_super fs') = 1 \<and>
      bd_blocks fs' = (\<lambda>_. [0, 0, 0, 0]))"
  using s5_free_inode_device [of "s5fs_ex 5 1" 3 s5_codes_ex]
  by (auto simp add: s5fs_ex_def inode_ex_def s5_codes_ex_def)

text \<open>
  \<open>s5_alloc_inode\<close> by itself, called with one of the four type tags it asserts:
  it returns \<open>-ENOSPC\<close> and leaves the file system as it is when the head of the
  free-inode list is \<open>-1\<close>; otherwise (the two assertions on the inode holding) it
  returns the number of the head inode, never a negative value, and the head
  becomes that inode's link.
\<close>

lemma s5_alloc_inode_enospc:
  assumes "type \<in> {S5_TYPE_DATA tc, S5_TYPE_DIR tc, S5_TYPE_CHR tc, S5_TYPE_BLK tc}"
    and "s5s_free_inode (s5f_super fs) = - 1"
  shows "s5_alloc_inode tc fs type devid = Ret (- ENOSPC, fs)"
  using assms by (auto simp add: s5_alloc_inode_def)

lemma s5_alloc_inode_pop:
  assumes "type \<in> {S5_TYPE_DATA tc, S5_TYPE_DIR tc, S5_TYPE_CHR tc, S5_TYPE_BLK tc}"
    and "s5s_free_inode (s5f_super fs) \<noteq> - 1"
    and "s5_number (bd_inodes fs (s5s_free_inode (s5f_super fs))) = s5s_free_inode (s5f_super fs)"
    and "s5_un (bd_inodes fs (s5s_free_inode (s5f_super fs))) \<noteq> s5s_free_inode (s5f_super fs)"
  shows "\<exists>fs'. s5_alloc_inode tc fs type devid = Ret (uint (s5s_free_inode (s5f_super fs)), fs')
     \<and> s5s_free_inode (s5f_super fs') = s5_un (bd_inodes fs (s5s_free_inode (s5f_super fs)))
     \<and> 0 \<le> uint (s5s_free_inode (s5f_super fs))
     \<and> uint (s5s_free_inode (s5f_super fs)) \<noteq> - ENOSPC"
proof -
  have "0 \<le> uint (s5s_free_inode (s5f_super fs))" by simp
  then have "uint (s5s_free_inode (s5f_super fs)) \<noteq> - ENOSPC"
    unfolding ENOSPC_def by linarith
  with assms show ?thesis
    by (auto simp add: s5_alloc_inode_def s5_get_inode_def s5_get_disk_block_def Let_def)
qed

text \<open>
  C5.  \<open>s5fs_mkdir\<close> passes the mode constant \<open>S_IFDIR\<close> to \<open>s5_alloc_inode\<close> as the
  inode type.  \<open>s5_alloc_inode\<close> asserts, before it looks at the free-inode list,
  that the type is one of \<open>S5_TYPE_DATA\<close>, \<open>S5_TYPE_DIR\<close>, \<open>S5_TYPE_CHR\<close> and
  \<open>S5_TYPE_BLK\<close>.  Whenever \<open>S_IFDIR\<close> is none of these four values the assertion
  fails and \<open>s5fs_mkdir\<close> ends in a kernel panic, in a file system without free
  inodes as in any other: it does not return \<open>-ENOSPC\<close>.
\<close>

theorem s5fs_mkdir_type_assertion:
  assumes "ucast S_IFDIR \<notin> {S5_TYPE_DATA tc, S5_TYPE_DIR tc, S5_TYPE_CHR tc, S5_TYPE_BLK tc}"
  shows "s5fs_mkdir tc rest fs dir_mode = Panic"
  using assms by (auto simp add: s5fs_mkdir_def s5_alloc_inode_def)

text \<open>
  With the type tags 1, 2, 4 and 8 and a free-inode list that is empty,
  \<open>s5_alloc_inode\<close> called with the directory tag returns \<open>-ENOSPC\<close>, and
  \<open>s5fs_mkdir\<close> on a directory panics.
\<close>

theorem s5fs_mkdir_type_assertion_witness:
  "(ucast S_IFDIR :: u16) = 0x200 \<and>
   ucast S_IFDIR \<notin> {S5_TYPE_DATA s5_codes_ex, S5_TYPE_DIR s5_codes_ex,
                     S5_TYPE_CHR s5_codes_ex, S5_TYPE_BLK s5_codes_ex} \<and>
   s5s_free_inode (s5f_super (s5fs_ex (- 1) 1)) = - 1 \<and>
   s5_alloc_inode s5_codes_ex (s5fs_ex (- 1) 1) (S5_TYPE_DIR s5_codes_ex) 0
     = Ret (- ENOSPC, s5fs_ex (- 1) 1) \<and>
   s5fs_mkdir s5_codes_ex (\<lambda>fs ino. Ret (0, fs)) (s5fs_ex (- 1) 1) S_IFDIR = Panic"
  using s5fs_mkdir_type_assertion
    [of s5_codes_ex "\<lambda>fs ino. Ret (0, fs)" "s5fs_ex (- 1) 1" S_IFDIR]
    s5_alloc_inode_enospc [of "S5_TYPE_DIR s5_codes_ex" s5_codes_ex "s5fs_ex (- 1) 1" 0]
  by (simp add: s5_codes_ex_def S_IFDIR_def s5fs_ex_def)

subsection \<open>Files of S5FS\<close>

text \<open>
  As \<open>s5_file_block_to_disk_block\<close> returns 0 whatever it is asked, no call of
  \<open>s5fs_get_pframe\<close> returns a frame of the block device.
\<close>

lemma s5fs_get_pframe_never_bdev:
  "s5fs_get_pframe mem vnode pagenum forwrite \<noteq> Ret (r, Some (Bdev_pframe b), vnode')"
  by (simp add: s5fs_get_pframe_def s5_file_block_to_disk_block_def
      mobj_default_get_pframe_def)

text \<open>
  With \<open>forwrite\<close> set there are two outcomes only: \<open>-EINVAL\<close> for a page that begins
  at or past the end of the file, and the failed assertion otherwise.  No such call
  returns 0.
\<close>

lemma s5fs_get_pframe_forwrite_outcomes:
  "s5fs_get_pframe mem vnode pagenum True = Ret (- EINVAL, None, vnode) \<or>
   s5fs_get_pframe mem vnode pagenum True = Panic"
  by (simp add: s5fs_get_pframe_def s5_file_block_to_disk_block_def)

text \<open>
  C1.  A call of \<open>s5fs_get_pframe\<close> with \<open>forwrite\<close> set, for a page that begins
  inside the file, does not return: \<open>s5_file_block_to_disk_block\<close> answers 0 although
  allocation was requested, the branch of the sparse block is entered and its
  assertion \<open>!forwrite\<close> fails.  No frame of the block device is handed out.
\<close>

theorem s5fs_get_pframe_forwrite_panics:
  assumes "\<not> vn_len vnode \<le> pagenum * word_of_nat PAGE_SIZE"
  shows "s5fs_get_pframe mem vnode pagenum True = Panic"
  using assms by (simp add: s5fs_get_pframe_def s5_file_block_to_disk_block_def)

text \<open>Page 0 of the one-page example file, requested for writing.\<close>

theorem s5fs_get_pframe_forwrite_panics_witness:
  "vn_len s5_node_ex = 4096 \<and>
   \<not> vn_len s5_node_ex \<le> 0 * word_of_nat PAGE_SIZE \<and>
   s5_file_block_to_disk_block s5_node_ex 0 True = 0 \<and>
   s5fs_get_pframe True s5_node_ex 0 True = Panic"
  using s5fs_get_pframe_forwrite_panics [of s5_node_ex 0 True]
  by (simp add: s5_node_ex_def PAGE_SIZE_def s5_file_block_to_disk_block_def)

text \<open>
  C2.  \<open>s5_write_file\<close> returns -1 for every file, position, buffer and length, and
  leaves the file as it is: it never returns \<open>-EFBIG\<close> and never a count of bytes
  written.
\<close>

theorem s5_write_file_returns_minus_one:
  "s5_write_file sn pos buf len = (- 1, sn) \<and>
   fst (s5_write_file sn pos buf len) \<noteq> - EFBIG \<and>
   \<not> 0 \<le> fst (s5_write_file sn pos buf len)"
  by (simp add: s5_write_file_def EFBIG_def)

text \<open>
  C3.  \<open>s5_read_file\<close> returns -1 for every file, position and length, also for a
  position at or past the end of the file, and copies no byte: it does not
  return 0.
\<close>

theorem s5_read_file_returns_minus_one:
  "s5_read_file sn pos len = (- 1, []) \<and> fst (s5_read_file sn pos len) \<noteq> 0"
  by (simp add: s5_read_file_def)

text \<open>
  C7.  \<open>s5fs_rmdir\<close> never returns \<open>-ENOTEMPTY\<close>.  For a name such as \<open>d\<close> it
  returns the -1 of \<open>s5_find_dirent\<close>, whatever the directory of that name holds.
\<close>

theorem s5fs_rmdir_never_enotempty:
  "s5fs_rmdir parent ''d'' 1 = Ret (- 1) \<and>
   s5fs_rmdir parent name namelen \<noteq> Ret (- ENOTEMPTY)"
  by (simp add: s5fs_rmdir_def s5_find_dirent_def name_match_def ENOTEMPTY_def ENOTDIR_def)

subsection \<open>\<open>do_read\<close>\<close>

text \<open>
  C4.  For a descriptor that is open for reading and is not a directory, when the
  vnode's \<open>read\<close> returns a value \<open>n\<close> other than 0, \<open>do_read\<close> returns \<open>n\<close> through
  the early return \<open>if (ret != 0)\<close> and the table of files, with the position of
  the file in it, is as before: a read of \<open>n > 0\<close> bytes does not advance the
  position.
\<close>

theorem do_read_position_not_advanced:
  assumes "fget p_files fd = Some file"
    and "and (f_mode file) (FMODE_READ kc) \<noteq> 0"
    and "\<not> S_ISDIR (vn_mode_of (f_vnode file))"
    and "vn_read (f_vnode file) (f_pos file) len = n"
    and "n \<noteq> 0"
  shows "do_read kc vn_mode_of vn_read p_files fd len = (n, p_files)"
  using assms by (simp add: do_read_def)

text \<open>
  A read of 5 bytes through descriptor 3, which is at position 0: \<open>do_read\<close>
  returns 5 and the position is still 0.
\<close>

theorem do_read_position_not_advanced_witness:
  "fget p_files_ex 3 = Some \<lparr>f_mode = 1, f_pos = 0, f_vnode = 7\<rparr> \<and>
   and (1 :: u32) (FMODE_READ kc_ex) \<noteq> 0 \<and>
   \<not> S_ISDIR S_IFREG \<and>
   do_read kc_ex (\<lambda>_. S_IFREG) (\<lambda>vn pos len. 5) p_files_ex 3 5 = (5, p_files_ex) \<and>
   map_option f_pos (snd (do_read kc_ex (\<lambda>_. S_IFREG) (\<lambda>vn pos len. 5) p_files_ex 3 5) 3)
     = Some 0"
  using do_read_position_not_advanced
    [of p_files_ex 3 "\<lparr>f_mode = 1, f_pos = 0, f_vnode = 7\<rparr>" kc_ex "\<lambda>_. S_IFREG"
        "\<lambda>vn pos len. 5" 5 5]
  by (simp add: fget_def p_files_ex_def kc_ex_def S_ISDIR_def S_IFREG_def S_IFDIR_def)

subsection \<open>\<open>vmmap_find_range\<close>\<close>

lemma pn_small: "unat (ADDR_TO_PN x) < 2 ^ 52"
proof -
  have "unat (ADDR_TO_PN x) = unat x div 2 ^ 12"
    by (simp add: ADDR_TO_PN_def PAGE_SHIFT_def unat_drop_bit_eq drop_bit_eq_div unat_div)
  moreover have "unat x < 2 ^ 64" using unsigned_less [of x] by simp
  ultimately show ?thesis by simp
qed

lemma sint_small:
  fixes w :: u64
  assumes "uint w < 2 ^ 63"
  shows "sint w = uint w"
proof -
  have "sint w = signed_take_bit 63 (uint w)" by (simp add: sint_uint)
  also have "\<dots> = uint w"
  proof (rule signed_take_bit_int_eq_self)
    have "0 \<le> uint w" by simp
    moreover have "- (2 ^ 63) \<le> (0 :: int)" by simp
    ultimately show "- (2 ^ 63) \<le> uint w" by (rule order_trans [rotated])
    show "uint w < 2 ^ 63" by (rule assms)
  qed
  finally show ?thesis .
qed


text \<open>
  C9.  Take an address space whose only area is the top page of user memory, and
  ask for 2 pages from the top down (user memory holding at least 2 pages).
  \<open>vmmap_find_range\<close> starts at the page 2 below the top, finds that the area
  starts above that page and returns it: a range of 2 pages whose second page is
  the mapped one.  The answer is not a gap of unmapped pages.
\<close>

theorem vmmap_find_range_hilo_overlaps_top_area:
  assumes room: "2 \<le> (USER_MEM_HIGH mc - USER_MEM_LOW mc) div word_of_nat PAGE_SIZE"
    and top: "2 \<le> ADDR_TO_PN (USER_MEM_HIGH mc)"
  shows "vmmap_find_range mc
           [\<lparr>vma_start = ADDR_TO_PN (USER_MEM_HIGH mc) - 1,
             vma_end = ADDR_TO_PN (USER_MEM_HIGH mc)\<rparr>] 2 VMMAP_DIR_HILO
         = uint (ADDR_TO_PN (USER_MEM_HIGH mc)) - 2 \<and>
    \<not> range_is_free
           [\<lparr>vma_start = ADDR_TO_PN (USER_MEM_HIGH mc) - 1,
             vma_end = ADDR_TO_PN (USER_MEM_HIGH mc)\<rparr>]
           (uint (ADDR_TO_PN (USER_MEM_HIGH mc)) - 2) 2"
proof -
  define T where "T = ADDR_TO_PN (USER_MEM_HIGH mc)"
  have T2: "2 \<le> unat T" using top unfolding T_def by (simp add: word_le_nat_alt)
  have small: "unat T < 2 ^ 52" unfolding T_def by (rule pn_small)
  have "(2 :: u64) \<le> T" using top unfolding T_def .
  then have u2: "unat (T - 2) = unat T - unat (2 :: u64)" by (rule unat_sub)
  have "(1 :: u64) \<le> T" using T2 by (simp add: word_le_nat_alt)
  then have u1: "unat (T - 1) = unat T - unat (1 :: u64)" by (rule unat_sub)
  have lt: "T - 2 < T - 1"
    unfolding word_less_nat_alt u1 u2 using T2 by simp
  have "int (unat (T - 2)) = int (unat T) - 2" using u2 T2 by simp
  then have ui: "uint (T - 2) = uint T - 2" by (simp only: of_nat_unat)
  have "int (unat (T - 1)) = int (unat T) - 1" using u1 T2 by simp
  then have ui1: "uint (T - 1) = uint T - 1" by (simp only: of_nat_unat)
  have "uint T < 2 ^ 52"
    using small by (metis of_nat_less_numeral_power_cancel_iff of_nat_unat)
  then have "uint (T - 2) < 2 ^ 63" unfolding ui by simp
  then have "sint (T - 2) = uint (T - 2)" by (rule sint_small)
  then have s: "sint (T - 2) = uint T - 2" unfolding ui .
  have nf: "\<not> 2 > (USER_MEM_HIGH mc - USER_MEM_LOW mc) div word_of_nat PAGE_SIZE"
    using room by simp
  have "find_range_hilo (rev [\<lparr>vma_start = T - 1, vma_end = T\<rparr>]) (T - 2) = T - 2"
    using lt by simp
  then have r: "vmmap_find_range mc [\<lparr>vma_start = T - 1, vma_end = T\<rparr>] 2 VMMAP_DIR_HILO
      = uint T - 2"
    unfolding vmmap_find_range_def T_def [symmetric] using nf s by simp
  have o: "\<not> range_is_free [\<lparr>vma_start = T - 1, vma_end = T\<rparr>] (uint T - 2) 2"
    unfolding range_is_free_def using ui1 by simp
  from r o show ?thesis unfolding T_def by simp
qed

text \<open>
  With user memory from page \<open>0x400\<close> to page \<open>0xC0000\<close> the answer is \<open>0xBFFFE\<close>,
  while the highest gap of 2 pages is the one that starts at \<open>0xBFFFD\<close>.
\<close>

theorem vmmap_find_range_hilo_overlaps_top_area_witness:
  "ADDR_TO_PN (USER_MEM_HIGH mc_ex) = 0xC0000 \<and>
   2 \<le> (USER_MEM_HIGH mc_ex - USER_MEM_LOW mc_ex) div word_of_nat PAGE_SIZE \<and>
   2 \<le> ADDR_TO_PN (USER_MEM_HIGH mc_ex) \<and>
   vmmap_find_range mc_ex [\<lparr>vma_start = 0xBFFFF, vma_end = 0xC0000\<rparr>] 2 VMMAP_DIR_HILO
     = 0xBFFFE \<and>
   \<not> range_is_free [\<lparr>vma_start = 0xBFFFF, vma_end = 0xC0000\<rparr>] 0xBFFFE 2 \<and>
   range_is_free [\<lparr>vma_start = 0xBFFFF, vma_end = 0xC0000\<rparr>] 0xBFFFD 2 \<and>
   range_in_user_memory mc_ex 0xBFFFD 2"
proof -
  have e: "ADDR_TO_PN (USER_MEM_HIGH mc_ex) = 0xC0000" by code_simp
  have h1: "2 \<le> (USER_MEM_HIGH mc_ex - USER_MEM_LOW mc_ex) div word_of_nat PAGE_SIZE"
    by code_simp
  have h2: "2 \<le> ADDR_TO_PN (USER_MEM_HIGH mc_ex)" by code_simp
  have g: "range_is_free [\<lparr>vma_start = 0xBFFFF, vma_end = 0xC0000\<rparr>] 0xBFFFD 2 \<and>
      range_in_user_memory mc_ex 0xBFFFD 2"
    by code_simp
  from vmmap_find_range_hilo_overlaps_top_area [OF h1 h2] e g h1 h2 show ?thesis by simp
qed

text \<open>
  Two more answers in that layout.  A request for 1 page, in the address space above
  and in one where all of user memory is mapped, is answered with page \<open>0xC0001\<close>,
  which lies above the top of user memory; the answer is not -1 although the second
  address space has no gap.  With the area \<open>[0xBFFF0, 0xBFFF8)\<close> the answer is
  \<open>0xBFFF9\<close>, a free page, but not the highest one, \<open>0xBFFFF\<close>.
\<close>

lemma vmmap_find_range_hilo_other_answers:
  "vmmap_find_range mc_ex [\<lparr>vma_start = 0xBFFFF, vma_end = 0xC0000\<rparr>] 1 VMMAP_DIR_HILO
     = 0xC0001 \<and>
   \<not> range_in_user_memory mc_ex 0xC0001 1 \<and>
   vmmap_find_range mc_ex [\<lparr>vma_start = 0x400, vma_end = 0xC0000\<rparr>] 1 VMMAP_DIR_HILO
     = 0xC0001 \<and>
   vmmap_find_range mc_ex [\<lparr>vma_start = 0xBFFF0, vma_end = 0xBFFF8\<rparr>] 1 VMMAP_DIR_HILO
     = 0xBFFF9 \<and>
   range_is_free [\<lparr>vma_start = 0xBFFF0, vma_end = 0xBFFF8\<rparr>] 0xBFFFF 1 \<and>
   range_in_user_memory mc_ex 0xBFFFF 1"
  by code_simp

subsection \<open>\<open>namev_open\<close>\<close>

text \<open>
  C8, as stated, fails.  The limit is 28 and every directory is empty.  The first
  component of the path \<open>aaaaaaaaaaaaaaaaaaaaaaaaaaaaa/b\<close> has 29 characters;
  \<open>namev_dir\<close> hands it to the \<open>lookup\<close> of the base directory, which does not find
  it, and \<open>namev_open\<close> returns \<open>-ENOENT\<close>, not \<open>-ENAMETOOLONG\<close>.
\<close>

theorem namev_open_long_component_counterexample:
  "NAME_LEN kc_ex < length long_name_ex \<and>
   namev_open kc_ex vfs_ex 0 (long_name_ex @ ''/b'') 0 0 0 = Inl (- ENOENT) \<and>
   namev_open kc_ex vfs_ex 0 (long_name_ex @ ''/b'') 0 0 0 \<noteq> Inl (- ENAMETOOLONG)"
  by code_simp

text \<open>
  The name that \<open>namev_dir\<close> returns is the last component of the path.  The proof
  follows the tokens: the last component of a text is the last component of what
  follows its first token, or that token when nothing but slashes follows.
\<close>

lemma basename_Nil_iff: "path_basename s = [] \<longleftrightarrow> (\<forall>c \<in> set s. c = CHR ''/'')"
proof
  assume "path_basename s = []"
  then have tw: "takeWhile (\<lambda>c. c \<noteq> CHR ''/'') (dropWhile (\<lambda>c. c = CHR ''/'') (rev s)) = []"
    by (simp add: path_basename_def)
  have "dropWhile (\<lambda>c. c = CHR ''/'') (rev s) = []"
  proof (rule ccontr)
    assume ne: "dropWhile (\<lambda>c. c = CHR ''/'') (rev s) \<noteq> []"
    then have "hd (dropWhile (\<lambda>c. c = CHR ''/'') (rev s)) \<noteq> CHR ''/''"
      by (rule hd_dropWhile)
    with ne tw show False by (simp only: takeWhile_eq_Nil_iff) simp
  qed
  then have "\<forall>c \<in> set (rev s). c = CHR ''/''"
    by (simp only: dropWhile_eq_Nil_conv)
  then show "\<forall>c \<in> set s. c = CHR ''/''" by simp
next
  assume "\<forall>c \<in> set s. c = CHR ''/''"
  then have "\<forall>c \<in> set (rev s). c = CHR ''/''" by simp
  then have "dropWhile (\<lambda>c. c = CHR ''/'') (rev s) = []"
    by (simp only: dropWhile_eq_Nil_conv)
  then show "path_basename s = []"
    by (simp only: path_basename_def takeWhile.simps rev.simps)
qed

lemma basename_all_slashes_suffix:
  assumes "\<forall>c \<in> set r. c = CHR ''/''"
  shows "path_basename (x @ r) = path_basename x"
proof -
  have "dropWhile (\<lambda>c. c = CHR ''/'') (rev r @ rev x) = dropWhile (\<lambda>c. c = CHR ''/'') (rev x)"
    using assms by (intro dropWhile_append2) simp
  then show ?thesis by (simp add: path_basename_def)
qed

lemma basename_token:
  assumes "t \<noteq> []" and "\<forall>c \<in> set t. c \<noteq> CHR ''/''" and "\<forall>c \<in> set sl. c = CHR ''/''"
  shows "path_basename (sl @ t) = t"
proof -
  have "hd (rev t) \<noteq> CHR ''/''"
    using assms(1,2) by (metis hd_rev last_in_set)
  then have "dropWhile (\<lambda>c. c = CHR ''/'') (rev t @ rev sl) = rev t @ rev sl"
    using assms(1) by (cases "rev t") auto
  moreover have "takeWhile (\<lambda>c. c \<noteq> CHR ''/'') (rev t @ rev sl)
      = rev t @ takeWhile (\<lambda>c. c \<noteq> CHR ''/'') (rev sl)"
    using assms(2) by (intro takeWhile_append2) simp
  moreover have "takeWhile (\<lambda>c. c \<noteq> CHR ''/'') (rev sl) = []"
    using assms(3) by (cases "rev sl") auto
  ultimately show ?thesis by (simp add: path_basename_def)
qed

lemma basename_rest:
  assumes "r \<noteq> []" and "hd r = CHR ''/''" and "path_basename r \<noteq> []"
  shows "path_basename (x @ r) = path_basename r"
proof -
  let ?b = "dropWhile (\<lambda>c. c = CHR ''/'') (rev r)"
  from assms(3) obtain c where c: "c \<in> set (rev r)" "c \<noteq> CHR ''/''"
    using basename_Nil_iff [of r] by auto
  then have d: "dropWhile (\<lambda>c. c = CHR ''/'') (rev r @ rev x) = ?b @ rev x"
    by (simp add: dropWhile_append1)
  have bne: "?b \<noteq> []" using c by (auto simp add: dropWhile_eq_Nil_conv)
  have "last (rev r) = CHR ''/''" using assms(1,2) by (simp add: last_rev)
  moreover have "last ?b = last (rev r)"
    using bne by (metis last_appendR takeWhile_dropWhile_id)
  ultimately have "CHR ''/'' \<in> set ?b" using bne by (metis last_in_set)
  then have "takeWhile (\<lambda>c. c \<noteq> CHR ''/'') (?b @ rev x) = takeWhile (\<lambda>c. c \<noteq> CHR ''/'') ?b"
    by (simp add: takeWhile_append1)
  with d show ?thesis by (simp add: path_basename_def)
qed


lemma tokenize_Some:
  "namev_tokenize (Some s) =
     (takeWhile (\<lambda>c. c \<noteq> CHR ''/'') (dropWhile (\<lambda>c. c = CHR ''/'') s),
      if dropWhile (\<lambda>c. c \<noteq> CHR ''/'') (dropWhile (\<lambda>c. c = CHR ''/'') s) = [] then None
      else Some (dropWhile (\<lambda>c. c \<noteq> CHR ''/'') (dropWhile (\<lambda>c. c = CHR ''/'') s)))"
  by (simp add: namev_tokenize_def Let_def)

lemma basename_first_token:
  fixes s :: string
  defines "t \<equiv> takeWhile (\<lambda>c. c \<noteq> CHR ''/'') (dropWhile (\<lambda>c. c = CHR ''/'') s)"
    and "r \<equiv> dropWhile (\<lambda>c. c \<noteq> CHR ''/'') (dropWhile (\<lambda>c. c = CHR ''/'') s)"
  shows "path_basename s = (if path_basename r \<noteq> [] then path_basename r else t)"
proof -
  define sl where "sl = takeWhile (\<lambda>c. c = CHR ''/'') s"
  have s: "s = (sl @ t) @ r"
    unfolding sl_def t_def r_def by simp
  have sl: "\<forall>c \<in> set sl. c = CHR ''/''"
    unfolding sl_def by (auto dest: set_takeWhileD)
  have t: "\<forall>c \<in> set t. c \<noteq> CHR ''/''"
    unfolding t_def by (auto dest: set_takeWhileD)
  show ?thesis
  proof (cases "path_basename r = []")
    case True
    then have allr: "\<forall>c \<in> set r. c = CHR ''/''" by (simp only: basename_Nil_iff)
    have eq: "path_basename s = path_basename (sl @ t)"
      by (subst s) (rule basename_all_slashes_suffix [OF allr])
    show ?thesis
    proof (cases "t = []")
      case True
      then have "path_basename (sl @ t) = []" using sl by (simp add: basename_Nil_iff)
      with eq True \<open>path_basename r = []\<close> show ?thesis by simp
    next
      case False
      from basename_token [OF False t sl] eq \<open>path_basename r = []\<close> show ?thesis by simp
    qed
  next
    case False
    then have rne: "r \<noteq> []" by (auto simp add: path_basename_def)
    then have "hd r = CHR ''/''"
      unfolding r_def using hd_dropWhile [of "\<lambda>c. c \<noteq> CHR ''/''"] by blast
    from basename_rest [OF rne this False, of "sl @ t"] False show ?thesis
      by (subst s) simp
  qed
qed


lemma rest_of_tokenize:
  "rest_of (snd (namev_tokenize (Some s)))
     = dropWhile (\<lambda>c. c \<noteq> CHR ''/'') (dropWhile (\<lambda>c. c = CHR ''/'') s)"
proof (cases "dropWhile (\<lambda>c. c \<noteq> CHR ''/'') (dropWhile (\<lambda>c. c = CHR ''/'') s) = []")
  case True
  have "snd (namev_tokenize (Some s)) = None"
    by (subst tokenize_Some) (simp only: snd_conv True if_True simp_thms)
  then show ?thesis
    by (simp only: True rest_of_def option.case)
next
  case False
  have "snd (namev_tokenize (Some s))
      = Some (dropWhile (\<lambda>c. c \<noteq> CHR ''/'') (dropWhile (\<lambda>c. c = CHR ''/'') s))"
    by (subst tokenize_Some) (simp only: snd_conv False if_False simp_thms)
  then show ?thesis
    by (simp only: rest_of_def option.case)
qed

lemma fst_tokenize:
  "fst (namev_tokenize (Some s))
     = takeWhile (\<lambda>c. c \<noteq> CHR ''/'') (dropWhile (\<lambda>c. c = CHR ''/'') s)"
  by (simp only: tokenize_Some fst_conv)

lemma basename_Nil [simp]: "path_basename [] = []"
  by (simp add: path_basename_def)

lemma token_Nil_rest_Nil:
  assumes "takeWhile (\<lambda>c. c \<noteq> CHR ''/'') (dropWhile (\<lambda>c. c = CHR ''/'') s) = []"
  shows "dropWhile (\<lambda>c. c \<noteq> CHR ''/'') (dropWhile (\<lambda>c. c = CHR ''/'') s) = []"
proof -
  have "dropWhile (\<lambda>c. c = CHR ''/'') s = []"
  proof (rule ccontr)
    assume ne: "dropWhile (\<lambda>c. c = CHR ''/'') s \<noteq> []"
    then have "hd (dropWhile (\<lambda>c. c = CHR ''/'') s) \<noteq> CHR ''/''"
      by (rule hd_dropWhile)
    with ne assms show False
      by (simp only: takeWhile_eq_Nil_iff) simp
  qed
  then show ?thesis by (simp only: dropWhile.simps)
qed

lemma choose_last:
  fixes t b n :: "'a list"
  assumes "t = [] \<Longrightarrow> b = []"
  shows "(if t = [] then n else if b \<noteq> [] then b else t)
       = (if (if b \<noteq> [] then b else t) \<noteq> [] then (if b \<noteq> [] then b else t) else n)"
  using assms by (cases "t = []"; cases "b = []"; simp)

lemma tokenize_step:
  "(if fst (namev_tokenize search) = [] then nxt
    else if path_basename (rest_of (snd (namev_tokenize search))) \<noteq> []
         then path_basename (rest_of (snd (namev_tokenize search)))
         else fst (namev_tokenize search))
   = (if path_basename (rest_of search) \<noteq> [] then path_basename (rest_of search) else nxt)"
proof (cases search)
  case None
  then show ?thesis by (simp add: namev_tokenize_def rest_of_def)
next
  case (Some s)
  define t where "t = takeWhile (\<lambda>c. c \<noteq> CHR ''/'') (dropWhile (\<lambda>c. c = CHR ''/'') s)"
  define r where "r = dropWhile (\<lambda>c. c \<noteq> CHR ''/'') (dropWhile (\<lambda>c. c = CHR ''/'') s)"
  have f: "fst (namev_tokenize search) = t"
    unfolding Some t_def by (rule fst_tokenize)
  have "rest_of (snd (namev_tokenize search)) = r"
    unfolding Some r_def by (rule rest_of_tokenize)
  then have b': "path_basename (rest_of (snd (namev_tokenize search))) = path_basename r"
    by (rule arg_cong)
  have b: "path_basename (rest_of search) = (if path_basename r \<noteq> [] then path_basename r else t)"
    unfolding Some rest_of_def t_def r_def option.case by (rule basename_first_token)
  have "path_basename r = []" if "t = []"
  proof -
    from that have "r = []" unfolding t_def r_def by (rule token_Nil_rest_Nil)
    then show ?thesis by (simp only: basename_Nil)
  qed
  from choose_last [where n = nxt and t = t and b = "path_basename r", OF this] show ?thesis
    by (simp only: f b' b)
qed

lemma namev_dir_loop_name:
  "namev_dir_loop V basenode curname nextname search = Inr (d, name) \<Longrightarrow>
   name = (if nextname = [] then curname
           else if path_basename (rest_of search) \<noteq> [] then path_basename (rest_of search)
           else nextname)"
proof (induction V basenode curname nextname search rule: namev_dir_loop.induct)
  case (1 V basenode curname nextname search)
  show ?case
  proof (cases "nextname = []")
    case True
    with "1.prems" show ?thesis
      by (simp add: namev_dir_loop.simps [of V basenode curname nextname search])
  next
    case False
    from "1.prems" False obtain revnode where
      look: "namev_lookup V basenode curname = Inr revnode"
      and rec: "namev_dir_loop V (if basenode = revnode then basenode else revnode) nextname
          (fst (namev_tokenize search)) (snd (namev_tokenize search)) = Inr (d, name)"
      by (simp add: namev_dir_loop.simps [of V basenode curname nextname search]
          split: sum.splits)
    from False have "length nextname \<noteq> 0" by simp
    from "1.IH" [OF this look rec]
    have "name = (if fst (namev_tokenize search) = [] then nextname
       else if path_basename (rest_of (snd (namev_tokenize search))) \<noteq> []
            then path_basename (rest_of (snd (namev_tokenize search)))
            else fst (namev_tokenize search))" .
    also have "\<dots> = (if path_basename (rest_of search) \<noteq> [] then path_basename (rest_of search)
        else nextname)"
      by (rule tokenize_step)
    finally show ?thesis using False by simp
  qed
qed

lemma namev_dir_name:
  assumes "namev_dir V base path = Inr (d, name)"
  shows "name = path_basename path"
proof -
  from assms have ne: "path \<noteq> []"
    by (auto simp add: namev_dir_def split: if_splits)
  let ?tok1 = "namev_tokenize (Some path)"
  from assms ne have
    "namev_dir_loop V (if hd path = CHR ''/'' then fs_root V else base)
       (fst ?tok1) (fst (namev_tokenize (snd ?tok1))) (snd (namev_tokenize (snd ?tok1)))
     = Inr (d, name)"
    by (simp add: namev_dir_def Let_def)
  from namev_dir_loop_name [OF this]
  have "name = (if fst (namev_tokenize (snd ?tok1)) = [] then fst ?tok1
       else if path_basename (rest_of (snd (namev_tokenize (snd ?tok1)))) \<noteq> []
            then path_basename (rest_of (snd (namev_tokenize (snd ?tok1))))
            else fst (namev_tokenize (snd ?tok1)))" .
  also have "\<dots> = (if path_basename (rest_of (snd ?tok1)) \<noteq> []
       then path_basename (rest_of (snd ?tok1)) else fst ?tok1)"
    by (rule tokenize_step)
  also have "\<dots> = path_basename path"
  proof -
    show ?thesis
      by (simp only: fst_tokenize rest_of_tokenize basename_first_token [of path, symmetric])
  qed
  finally show ?thesis .
qed

text \<open>
  C8, amended.  When the last component of the path is longer than \<open>NAME_LEN\<close>, and
  it is not the case that \<open>O_CREAT\<close> is given with a path that ends in a slash (then
  the result is \<open>-EINVAL\<close>), \<open>namev_open\<close> returns \<open>-ENAMETOOLONG\<close> as soon as
  \<open>namev_dir\<close> has resolved the directory part, and the error of \<open>namev_dir\<close> when
  that fails.  A component before the last one is not measured: it is handed to the
  \<open>lookup\<close> of its directory.
\<close>

theorem namev_open_basename_too_long:
  assumes long: "NAME_LEN kc < length (path_basename path)"
    and nocreat: "\<not> (and oflags (O_CREAT kc) \<noteq> 0 \<and> ends_in_slash path)"
  shows "namev_open kc V base path oflags mode devid =
     (case namev_dir V base path of
        Inl res \<Rightarrow> Inl res
      | Inr found \<Rightarrow> Inl (- ENAMETOOLONG))"
proof (cases "namev_dir V base path")
  case (Inl res)
  with nocreat show ?thesis by (auto simp add: namev_open_def)
next
  case (Inr found)
  obtain dirnode name where found: "found = (dirnode, name)" by (cases found)
  from Inr found have "name = path_basename path" by (simp add: namev_dir_name)
  with long nocreat Inr found show ?thesis by (auto simp add: namev_open_def)
qed

text \<open>
  The name of 29 characters alone, and behind a directory \<open>d\<close> that \<open>lookup\<close> finds:
  both times the last component is that name and \<open>namev_open\<close> returns
  \<open>-ENAMETOOLONG\<close>.
\<close>

theorem namev_open_basename_too_long_witness:
  "path_basename long_name_ex = long_name_ex \<and>
   path_basename (''d/'' @ long_name_ex) = long_name_ex \<and>
   NAME_LEN kc_ex < length long_name_ex \<and>
   \<not> (and (0 :: u32) (O_CREAT kc_ex) \<noteq> 0 \<and> ends_in_slash long_name_ex) \<and>
   namev_open kc_ex vfs_ex 0 long_name_ex 0 0 0 = Inl (- ENAMETOOLONG) \<and>
   namev_dir (vfs_ex\<lparr>vno_lookup := \<lambda>dir name. Inr 1\<rparr>) 0 (''d/'' @ long_name_ex)
     = Inr (1, long_name_ex) \<and>
   namev_open kc_ex (vfs_ex\<lparr>vno_lookup := \<lambda>dir name. Inr 1\<rparr>) 0 (''d/'' @ long_name_ex) 0 0 0
     = Inl (- ENAMETOOLONG)"
proof -
  have b1: "path_basename long_name_ex = long_name_ex" by code_simp
  have b2: "path_basename (''d/'' @ long_name_ex) = long_name_ex" by code_simp
  have l: "NAME_LEN kc_ex < length long_name_ex" by code_simp
  have d1: "namev_dir vfs_ex 0 long_name_ex = Inr (0, long_name_ex)" by code_simp
  have d2: "namev_dir (vfs_ex\<lparr>vno_lookup := \<lambda>dir name. Inr 1\<rparr>) 0 (''d/'' @ long_name_ex)
     = Inr (1, long_name_ex)" by code_simp
  have c: "\<not> (and (0 :: u32) (O_CREAT kc_ex) \<noteq> 0 \<and> ends_in_slash p)" for p
    by simp
  from namev_open_basename_too_long [of kc_ex long_name_ex 0 vfs_ex 0 0 0] b1 l c d1
  have o1: "namev_open kc_ex vfs_ex 0 long_name_ex 0 0 0 = Inl (- ENAMETOOLONG)"
    by simp
  from namev_open_basename_too_long
    [of kc_ex "''d/'' @ long_name_ex" 0 "vfs_ex\<lparr>vno_lookup := \<lambda>dir name. Inr 1\<rparr>" 0 0 0]
    b2 l c d2
  have o2: "namev_open kc_ex (vfs_ex\<lparr>vno_lookup := \<lambda>dir name. Inr 1\<rparr>) 0
      (''d/'' @ long_name_ex) 0 0 0 = Inl (- ENAMETOOLONG)"
    by simp
  from b1 b2 l c [of long_name_ex] o1 d2 o2 show ?thesis by blast
qed

end
